theory Spec2Isabelle
  imports Main
begin

section \<open>JavaScript values\<close>

text \<open>
  The stage of \<^verbatim>\<open>toflush.js\<close> handles three kinds of JavaScript values: the
  objects written to the stream, the value its callback produces, and the value the
  callback fails with. They are modelled by one datatype:
  \<^item> the primitives \<^verbatim>\<open>undefined\<close>, \<^verbatim>\<open>null\<close>, booleans, strings, and the numbers that
    are integers which JavaScript holds exactly (below \<open>2 ^ 53\<close> in absolute value);
  \<^item> arrays (what \<^verbatim>\<open>Array.isArray\<close> accepts);
  \<^item> plain objects: a list of data properties, and the \<^verbatim>\<open>isStream\<close> method when the
    object has one (as a vinyl file has): \<open>Some r\<close> says that \<^verbatim>\<open>obj.isStream\<close> is a
    function and that \<^verbatim>\<open>obj.isStream()\<close> returns \<open>r\<close>; with \<open>None\<close> the property
    \<^verbatim>\<open>isStream\<close> is whatever the data properties say, never a function;
  \<^item> instances of \<^verbatim>\<open>Error\<close>: the values of their \<^verbatim>\<open>name\<close> and \<^verbatim>\<open>message\<close>
    properties and their further data properties.
  Data properties hold values of this datatype, so no other property is a function.
\<close>

datatype jsval =
    JUndefined
  | JNull
  | JBool bool
  | JNum int
  | JStr string
  | JArray "jsval list"
  | JObject "jsval option" "(string \<times> jsval) list"
  | JError string string "(string \<times> jsval) list"

text \<open>Reading a property of \<^verbatim>\<open>undefined\<close> or \<^verbatim>\<open>null\<close> throws a TypeError.\<close>

fun nullish :: "jsval \<Rightarrow> bool" where
  "nullish JUndefined = True"
| "nullish JNull = True"
| "nullish _ = False"

text \<open>The truth value of a value where JavaScript expects a condition (\<^verbatim>\<open>||\<close>, \<^verbatim>\<open>&&\<close>, \<^verbatim>\<open>!\<close>).\<close>

fun truthy :: "jsval \<Rightarrow> bool" where
  "truthy JUndefined = False"
| "truthy JNull = False"
| "truthy (JBool b) = b"
| "truthy (JNum n) = (n \<noteq> 0)"
| "truthy (JStr s) = (s \<noteq> [])"
| "truthy _ = True"

text \<open>\<^verbatim>\<open>Array.isArray(v)\<close> and \<^verbatim>\<open>v instanceof Error\<close>.\<close>

fun isArray :: "jsval \<Rightarrow> bool" where
  "isArray (JArray xs) = True"
| "isArray _ = False"

fun instanceof_Error :: "jsval \<Rightarrow> bool" where
  "instanceof_Error (JError n m ps) = True"
| "instanceof_Error _ = False"

text \<open>
  \<^verbatim>\<open>typeof obj.isStream == 'function' && obj.isStream()\<close> for an \<open>obj\<close> that is not
  nullish: \<open>Some r\<close> when the property is a function, \<open>r\<close> being what the call returns.
\<close>

fun isStream :: "jsval \<Rightarrow> jsval option" where
  "isStream (JObject m ps) = m"
| "isStream _ = None"

text \<open>\<^verbatim>\<open>err.message\<close> for an \<open>err\<close> that is not nullish.\<close>

fun message :: "jsval \<Rightarrow> jsval" where
  "message (JObject m ps) = (case map_of ps ''message'' of Some v \<Rightarrow> v | None \<Rightarrow> JUndefined)"
| "message (JError n msg ps) = JStr msg"
| "message _ = JUndefined"

text \<open>\<^verbatim>\<open>new Error(msg)\<close>, and the assignment \<^verbatim>\<open>copy.message = msg\<close> to an Error.\<close>

definition new_Error :: "string \<Rightarrow> jsval" where
  "new_Error msg = JError ''Error'' msg []"

fun set_message :: "jsval \<Rightarrow> string \<Rightarrow> jsval" where
  "set_message (JError n old ps) msg = JError n msg ps"
| "set_message v msg = v"

subsection \<open>Conversion to text\<close>

function show_nat :: "nat \<Rightarrow> string" where
  "show_nat n =
     (if n < 10 then [char_of (48 + n)]
      else show_nat (n div 10) @ [char_of (48 + n mod 10)])"
  by pat_completeness auto
termination
  by (relation "measure id") auto

declare show_nat.simps [simp del]

definition show_int :: "int \<Rightarrow> string" where
  "show_int i = (if i < 0 then CHR ''-'' # show_nat (nat (- i)) else show_nat (nat i))"

fun join :: "string \<Rightarrow> string list \<Rightarrow> string" where
  "join sep [] = []"
| "join sep [s] = s"
| "join sep (s # t # ss) = s @ sep @ join sep (t # ss)"

text \<open>
  What \<^verbatim>\<open>'' + v\<close> computes: the string of a primitive; for an object the result of its
  \<^verbatim>\<open>toString\<close> (\<^verbatim>\<open>Array.prototype.join\<close> for an array, \<^verbatim>\<open>[object Object]\<close> for a
  plain object, \<^verbatim>\<open>Error.prototype.toString\<close> for an Error). \<open>None\<close> is the TypeError
  of an object whose own data property \<^verbatim>\<open>toString\<close> hides the inherited method.
\<close>

fun to_string :: "jsval \<Rightarrow> string option" where
  "to_string JUndefined = Some ''undefined''"
| "to_string JNull = Some ''null''"
| "to_string (JBool b) = Some (if b then ''true'' else ''false'')"
| "to_string (JNum n) = Some (show_int n)"
| "to_string (JStr s) = Some s"
| "to_string (JArray xs) =
     map_option (join '','')
       (those (map (\<lambda>v. if nullish v then Some [] else to_string v) xs))"
| "to_string (JObject m ps) =
     (if ''toString'' \<in> fst ` set ps then None else Some ''[object Object]'')"
| "to_string (JError n msg ps) =
     (if ''toString'' \<in> fst ` set ps then None
      else if n = [] then Some msg
      else if msg = [] then Some n
      else Some (n @ '': '' @ msg))"

section \<open>The callback\<close>

text \<open>
  What a call \<^verbatim>\<open>callback.call(stream, items)\<close> does, as far as the stage can tell: it
  returns a value that is no promise, it throws, or it returns a promise that is
  fulfilled with a value, is rejected with a value, or never settles.
\<close>

datatype outcome =
    Returns jsval
  | Throws jsval
  | Resolves jsval
  | Rejects jsval
  | Pending

text \<open>A function value: its \<^verbatim>\<open>name\<close> property (empty for an anonymous function) and its body.\<close>

datatype fn = Fn (fname: string) (fbody: "jsval list \<Rightarrow> outcome")

text \<open>
  How the promise \<^verbatim>\<open>new Promise(resolve => resolve(callback.call(stream, items)))\<close> of
  line 125 settles: a throw inside the executor rejects it, a returned promise is adopted.
\<close>

datatype settlement = Fulfilled jsval | Rejected jsval | Unsettled

fun settle :: "outcome \<Rightarrow> settlement" where
  "settle (Returns v) = Fulfilled v"
| "settle (Throws e) = Rejected e"
| "settle (Resolves v) = Fulfilled v"
| "settle (Rejects e) = Rejected e"
| "settle Pending = Unsettled"

section \<open>Construction\<close>

text \<open>
  The options object of the documentation (\<^verbatim>\<open>@typedef module:toflush~options\<close>): every
  field may be missing; \<open>o_callback = None\<close> also stands for a \<^verbatim>\<open>callback\<close> property that
  is not a function.
\<close>

record options =
  o_callback :: "fn option"
  o_name :: "string option"
  o_stream :: "bool option"

text \<open>The argument of \<^verbatim>\<open>toflush\<close>: a function, an options object, or any other value.\<close>

datatype arg = AFunction fn | AOptions options | AValue jsval

text \<open>The variables the returned stream closes over: \<^verbatim>\<open>callback\<close>, \<^verbatim>\<open>name\<close>, \<^verbatim>\<open>options\<close>, \<^verbatim>\<open>items\<close>.\<close>

record stage =
  callback :: fn
  name :: string
  options :: options
  items :: "jsval list"

text \<open>Line 109: \<^verbatim>\<open>name = options.name || callback.name || toflush.name\<close>.\<close>

definition resolve_name :: "options \<Rightarrow> fn \<Rightarrow> string" where
  "resolve_name opts cb =
     (case o_name opts of
        Some n \<Rightarrow> if n \<noteq> [] then n else if fname cb \<noteq> [] then fname cb else ''toflush''
      | None \<Rightarrow> if fname cb \<noteq> [] then fname cb else ''toflush'')"

definition new_stage :: "options \<Rightarrow> fn \<Rightarrow> stage" where
  "new_stage opts cb =
     \<lparr>callback = cb, name = resolve_name opts cb, options = opts, items = []\<rparr>"

text \<open>The object \<^verbatim>\<open>{stream: false}\<close> of line 100.\<close>

definition stream_false :: options where
  "stream_false = \<lparr>o_callback = None, o_name = None, o_stream = Some False\<rparr>"

text \<open>
  Lines 93 to 111. \<open>Inl\<close> is the exception thrown to the caller of \<^verbatim>\<open>toflush\<close>; a bare
  function replaces \<^verbatim>\<open>options\<close> by \<^verbatim>\<open>{stream: false}\<close>.
\<close>

definition toflush :: "arg \<Rightarrow> jsval + stage" where
  "toflush a =
     (case a of
        AFunction f \<Rightarrow> Inr (new_stage stream_false f)
      | AOptions opts \<Rightarrow>
          (case o_callback opts of
             None \<Rightarrow> Inl (JError ''TypeError'' ''callback must be a function'' [])
           | Some f \<Rightarrow> Inr (new_stage opts f))
      | AValue v \<Rightarrow> Inl (JError ''TypeError'' ''callback must be a function'' []))"

section \<open>The transform function\<close>

text \<open>
  Lines 113 to 121. The function either throws the TypeError of reading \<^verbatim>\<open>isStream\<close>
  off a nullish \<open>obj\<close>, or calls \<^verbatim>\<open>next\<close>: with an Error (\<open>Some\<close>) or with
  \<^verbatim>\<open>null\<close> (\<open>None\<close>).
\<close>

datatype transform_result = TypeErrorThrown | NextCalled stage "jsval option"

text \<open>\<^verbatim>\<open>options.stream\<close> as a condition: a missing field reads as \<^verbatim>\<open>undefined\<close>, which is false.\<close>

definition stream_enabled :: "stage \<Rightarrow> bool" where
  "stream_enabled st = (case o_stream (options st) of Some b \<Rightarrow> b | None \<Rightarrow> False)"

definition transform :: "stage \<Rightarrow> jsval \<Rightarrow> transform_result" where
  "transform st obj =
     (if nullish obj then TypeErrorThrown
      else if (case isStream obj of Some r \<Rightarrow> truthy r | None \<Rightarrow> False) \<and> \<not> stream_enabled st
      then NextCalled st (Some (new_Error (name st @ '': content streams are not enabled'')))
      else NextCalled (st\<lparr>items := items st @ [obj]\<rparr>) None)"

section \<open>The flush function\<close>

text \<open>
  What the stage does to the outside: it calls the callback, pushes a value downstream,
  calls \<^verbatim>\<open>done\<close> (with \<^verbatim>\<open>null\<close>, \<open>None\<close>, or with an error), hands a task to
  \<^verbatim>\<open>setImmediate\<close>, or lets a TypeError escape from the handler it is running.
\<close>

datatype action =
    Call "jsval list"
  | Push jsval
  | Done "jsval option"
  | SetImmediate
  | ThrowTypeError

text \<open>Lines 126 to 134, the handler given to \<^verbatim>\<open>then\<close>.\<close>

definition then_handler :: "jsval \<Rightarrow> action list" where
  "then_handler result =
     (case result of
        JArray rs \<Rightarrow> map Push rs
      | _ \<Rightarrow> [Push result]) @ [Done None]"

text \<open>
  Line 136: \<^verbatim>\<open>var copy = err instanceof Error ? err : new Error()\<close>.
\<close>

definition copy :: "jsval \<Rightarrow> jsval" where
  "copy err = (if instanceof_Error err then err else new_Error [])"

text \<open>
  The text that \<^verbatim>\<open>(err.message || err)\<close> contributes to the concatenation of line
  138. \<open>None\<close> is a TypeError: reading \<^verbatim>\<open>message\<close> off a nullish \<open>err\<close> throws, and
  so does the concatenation for a value without a text.
\<close>

definition failure_text :: "jsval \<Rightarrow> string option" where
  "failure_text err =
     (if nullish err then None
      else to_string (if truthy (message err) then message err else err))"

text \<open>
  Lines 136 to 140, the handler given to \<^verbatim>\<open>catch\<close>: what it does itself, and the
  error of every task \<^verbatim>\<open>() => done(copy)\<close> it hands to \<^verbatim>\<open>setImmediate\<close>. A
  TypeError in line 138 ends the handler before \<^verbatim>\<open>setImmediate\<close> is reached.
\<close>

definition catch_handler :: "stage \<Rightarrow> jsval \<Rightarrow> action list \<times> jsval list" where
  "catch_handler st err =
     (case failure_text err of
        None \<Rightarrow> ([ThrowTypeError], [])
      | Some text \<Rightarrow>
          ([SetImmediate], [set_message (copy err) (name st @ '': '' @ text)]))"

text \<open>
  Lines 122 to 142. The result lists the turns of the event loop in which the stage
  acts, in order, each with its actions: the call of \<^verbatim>\<open>flush\<close> itself, in which the
  promise's executor calls the callback; then the promise reaction that runs (none while
  the promise is unsettled); then every task handed to \<^verbatim>\<open>setImmediate\<close>.
\<close>

definition flush :: "stage \<Rightarrow> action list list" where
  "flush st =
     [Call (items st)] #
     (case settle (fbody (callback st) (items st)) of
        Fulfilled result \<Rightarrow> [then_handler result]
      | Rejected err \<Rightarrow>
          (case catch_handler st err of
             (acts, tasks) \<Rightarrow> acts # map (\<lambda>e. [Done (Some e)]) tasks)
      | Unsettled \<Rightarrow> [])"

section \<open>The stream around the two functions\<close>

text \<open>
  The stage is a \<^verbatim>\<open>stream.Transform\<close> of Node. Node hands every object written to it
  to \<^verbatim>\<open>transform\<close>, one at a time, the next one once \<^verbatim>\<open>next(null)\<close> was called; a
  call of \<^verbatim>\<open>next\<close> with an error makes the stream emit it as its error, and no later
  object reaches \<^verbatim>\<open>transform\<close>; when the input has ended and every object was taken,
  Node calls \<^verbatim>\<open>flush\<close>, once.
\<close>

datatype run_result =
    WriteThrew stage
  | Errored stage jsval
  | Flushed stage "action list list"

fun run :: "stage \<Rightarrow> jsval list \<Rightarrow> run_result" where
  "run st [] = Flushed st (flush st)"
| "run st (obj # objs) =
     (case transform st obj of
        TypeErrorThrown \<Rightarrow> WriteThrew st
      | NextCalled st' None \<Rightarrow> run st' objs
      | NextCalled st' (Some err) \<Rightarrow> Errored st' err)"

text \<open>The arguments of the calls of the callback, and the values pushed, in a list of turns.\<close>

fun call_args :: "action list \<Rightarrow> jsval list list" where
  "call_args [] = []"
| "call_args (Call xs # as) = xs # call_args as"
| "call_args (a # as) = call_args as"

fun pushed :: "action list \<Rightarrow> jsval list" where
  "pushed [] = []"
| "pushed (Push v # as) = v # pushed as"
| "pushed (a # as) = pushed as"

text \<open>
  The items that reach the consumer downstream. \<^verbatim>\<open>stream.push\<close> is Node's: a pushed
  value is an item of the readable side, except \<^verbatim>\<open>null\<close>, which is Node's signal that
  the stream has ended; nothing pushed after it is emitted. So the items emitted are the
  values pushed before the first \<^verbatim>\<open>null\<close>.
\<close>

definition emitted :: "action list \<Rightarrow> jsval list" where
  "emitted as = takeWhile (\<lambda>v. v \<noteq> JNull) (pushed as)"

section \<open>Notions of the specification\<close>

text \<open>
  An item is backed by a content stream when it has the \<^verbatim>\<open>isStream\<close> predicate and the
  predicate answers yes (a true value, as JavaScript's \<^verbatim>\<open>&&\<close> reads the answer).
\<close>

definition stream_backed :: "jsval \<Rightarrow> bool" where
  "stream_backed obj = (case isStream obj of Some r \<Rightarrow> truthy r | None \<Rightarrow> False)"

text \<open>The stage accepts an item: it appends it to \<^verbatim>\<open>items\<close> and calls \<^verbatim>\<open>next(null)\<close>.\<close>

definition accepted :: "stage \<Rightarrow> jsval \<Rightarrow> bool" where
  "accepted st obj =
     (case transform st obj of
        NextCalled st' None \<Rightarrow> items st' = items st @ [obj]
      | _ \<Rightarrow> False)"

text \<open>
  The transformation function that the argument of \<^verbatim>\<open>toflush\<close> gives: the argument
  itself when it is a function, the \<^verbatim>\<open>callback\<close> of an options object when that is a
  function, and none otherwise.
\<close>

fun resolved_callback :: "arg \<Rightarrow> fn option" where
  "resolved_callback (AFunction f) = Some f"
| "resolved_callback (AOptions opts) = o_callback opts"
| "resolved_callback (AValue v) = None"

text \<open>The explicit \<^verbatim>\<open>name\<close> field of the configuration, when the argument has one.\<close>

fun explicit_name :: "arg \<Rightarrow> string list" where
  "explicit_name (AOptions opts) = (case o_name opts of Some n \<Rightarrow> [n] | None \<Rightarrow> [])"
| "explicit_name a = []"

text \<open>The errors with which \<^verbatim>\<open>done\<close> is called, in a list of actions.\<close>

fun delivered :: "action list \<Rightarrow> jsval list" where
  "delivered [] = []"
| "delivered (Done (Some e) # as) = e # delivered as"
| "delivered (a # as) = delivered as"

section \<open>Callbacks and items of the test suite\<close>

text \<open>\<^verbatim>\<open>new MockVinyl({path: p, contents: c})\<close>; its \<^verbatim>\<open>isStream\<close> returns \<open>s\<close>.\<close>

definition MockVinyl :: "bool \<Rightarrow> string \<Rightarrow> jsval \<Rightarrow> jsval" where
  "MockVinyl s p c = JObject (Some (JBool s)) [(''path'', JStr p), (''contents'', c)]"

text \<open>\<^verbatim>\<open>{value: n}\<close>.\<close>

definition value_item :: "int \<Rightarrow> jsval" where
  "value_item n = JObject None [(''value'', JNum n)]"

text \<open>\<^verbatim>\<open>items => {}\<close>.\<close>

definition noop :: fn where
  "noop = Fn [] (\<lambda>items. Returns JUndefined)"

text \<open>The callback of the test \<^verbatim>\<open>filter items, sync\<close>: the items with an even \<^verbatim>\<open>value\<close>.\<close>

definition even_value :: "jsval \<Rightarrow> bool" where
  "even_value item =
     (case item of
        JObject m ps \<Rightarrow> (case map_of ps ''value'' of Some (JNum n) \<Rightarrow> n mod 2 = 0 | _ \<Rightarrow> False)
      | _ \<Rightarrow> False)"

definition filter_even :: fn where
  "filter_even = Fn [] (\<lambda>items. Returns (JArray (filter even_value items)))"

text \<open>The callback of the test \<^verbatim>\<open>duplicate items, sync\<close>: every item twice.\<close>

definition duplicate :: fn where
  "duplicate = Fn [] (\<lambda>items. Returns (JArray (concat (map (\<lambda>item. [item, item]) items))))"

text \<open>\<^verbatim>\<open>() => { throw new Error('test error'); }\<close> and \<^verbatim>\<open>() => Promise.reject('test rejection')\<close>.\<close>

definition thrower :: fn where
  "thrower = Fn [] (\<lambda>items. Throws (new_Error ''test error''))"


text \<open>\<^verbatim>\<open>function dopedname(items) { throw new Error('is used'); }\<close>.\<close>

definition dopedname :: fn where
  "dopedname = Fn ''dopedname'' (\<lambda>items. Throws (new_Error ''is used''))"

section \<open>Basic facts\<close>

lemma call_args_pushes [simp]: "call_args (map Push rs @ as) = call_args as"
  by (induction rs) simp_all

lemma pushed_pushes [simp]: "pushed (map Push rs @ as) = rs @ pushed as"
  by (induction rs) simp_all

lemma delivered_pushes [simp]: "delivered (map Push rs @ as) = delivered as"
  by (induction rs) simp_all

lemma call_args_then_handler [simp]: "call_args (then_handler result) = []"
  by (cases result) (simp_all add: then_handler_def)

lemma delivered_then_handler [simp]: "delivered (then_handler result) = []"
  by (cases result) (simp_all add: then_handler_def)

text \<open>The three ways in which the promise of \<^verbatim>\<open>flush\<close> settles.\<close>

lemma flush_Fulfilled:
  "settle (fbody (callback st) (items st)) = Fulfilled result \<Longrightarrow>
   flush st = [[Call (items st)], then_handler result]"
  by (simp add: flush_def)

lemma flush_Rejected:
  "settle (fbody (callback st) (items st)) = Rejected err \<Longrightarrow>
   flush st = [Call (items st)] # fst (catch_handler st err) #
     map (\<lambda>e. [Done (Some e)]) (snd (catch_handler st err))"
  by (simp add: flush_def split: prod.splits)

lemma flush_Unsettled:
  "settle (fbody (callback st) (items st)) = Unsettled \<Longrightarrow> flush st = [[Call (items st)]]"
  by (simp add: flush_def)

lemma hd_flush: "hd (flush st) = [Call (items st)]"
  by (simp add: flush_def)

lemma call_args_flush: "call_args (concat (flush st)) = [items st]"
proof (cases "settle (fbody (callback st) (items st))")
  case (Fulfilled result)
  then show ?thesis by (simp add: flush_Fulfilled)
next
  case (Rejected err)
  then show ?thesis
    by (cases "failure_text err") (simp_all add: flush_Rejected catch_handler_def)
next
  case Unsettled
  then show ?thesis by (simp add: flush_Unsettled)
qed

lemma message_set_message_copy: "message (set_message (copy err) msg) = JStr msg"
  by (cases err) (simp_all add: copy_def new_Error_def)

lemma delivered_flush:
  "list_all (\<lambda>e. \<exists>text. message e = JStr (name st @ '': '' @ text))
     (delivered (concat (flush st)))"
proof (cases "settle (fbody (callback st) (items st))")
  case (Fulfilled result)
  then show ?thesis by (simp add: flush_Fulfilled)
next
  case (Rejected err)
  then show ?thesis
    by (cases "failure_text err")
       (simp_all add: flush_Rejected catch_handler_def message_set_message_copy)
next
  case Unsettled
  then show ?thesis by (simp add: flush_Unsettled)
qed

text \<open>Whether an item is accepted depends on the options, never on the buffer.\<close>

lemma accepted_items [simp]: "accepted (st\<lparr>items := xs\<rparr>) obj = accepted st obj"
  by (auto simp add: accepted_def transform_def stream_enabled_def)

lemma accepted_step:
  "accepted st obj \<Longrightarrow> transform st obj = NextCalled (st\<lparr>items := items st @ [obj]\<rparr>) None"
  by (auto simp add: accepted_def transform_def split: if_splits)

lemma run_accepted:
  "\<forall>obj \<in> set objs. accepted st obj \<Longrightarrow>
   run st objs =
     Flushed (st\<lparr>items := items st @ objs\<rparr>) (flush (st\<lparr>items := items st @ objs\<rparr>))"
proof (induction objs arbitrary: st)
  case Nil
  then show ?case by simp
next
  case (Cons obj objs)
  from Cons.prems
  have step: "transform st obj = NextCalled (st\<lparr>items := items st @ [obj]\<rparr>) None"
    by (simp add: accepted_step)
  from Cons.prems have "\<forall>x \<in> set objs. accepted (st\<lparr>items := items st @ [obj]\<rparr>) x"
    by simp
  from Cons.IH [OF this] step show ?case by simp
qed

text \<open>A run keeps the name of the stage, and flushes the stage it ends in.\<close>

lemma run_name:
  "(run st objs = Flushed st' turns \<longrightarrow> name st' = name st \<and> turns = flush st')
   \<and> (run st objs = Errored st' e \<longrightarrow>
        e = new_Error (name st @ '': content streams are not enabled''))"
proof (induction objs arbitrary: st)
  case Nil
  show ?case by auto
next
  case (Cons obj objs)
  show ?case
  proof (cases "transform st obj")
    case TypeErrorThrown
    then show ?thesis by simp
  next
    case (NextCalled st1 r)
    then have nm: "name st1 = name st"
      by (auto simp add: transform_def split: if_splits)
    show ?thesis
    proof (cases r)
      case None
      with NextCalled Cons.IH [of st1] nm show ?thesis by simp
    next
      case (Some err)
      with NextCalled show ?thesis
        by (auto simp add: transform_def split: if_splits)
    qed
  qed
qed

lemma catch_handler_items [simp]:
  "catch_handler (st\<lparr>items := xs\<rparr>) err = catch_handler st err"
  by (simp add: catch_handler_def cong: option.case_cong)

lemma flush_items:
  "flush (st\<lparr>items := xs\<rparr>) =
     [Call xs] #
     (case settle (fbody (callback st) xs) of
        Fulfilled result \<Rightarrow> [then_handler result]
      | Rejected err \<Rightarrow>
          fst (catch_handler st err) # map (\<lambda>e. [Done (Some e)]) (snd (catch_handler st err))
      | Unsettled \<Rightarrow> [])"
  by (cases "settle (fbody (callback st) xs)") (simp_all add: flush_def split: prod.splits)

lemma toflush_items: "toflush a = Inr st \<Longrightarrow> items st = []"
  by (auto simp add: toflush_def new_stage_def split: arg.splits option.splits)

lemma toflush_Inr:
  "toflush a = Inr st \<Longrightarrow>
   resolved_callback a = Some (callback st) \<and>
   name st = hd (filter (\<lambda>s. s \<noteq> []) (explicit_name a @ [fname (callback st), ''toflush'']))"
  by (cases a)
     (auto simp add: toflush_def new_stage_def resolve_name_def stream_false_def
           split: option.splits)

text \<open>An array is not its own only element.\<close>

lemma not_self_nested: "rs \<noteq> [JArray rs]"
proof
  assume "rs = [JArray rs]"
  then have "size_list size rs = size_list size [JArray rs]" by simp
  then show False by simp
qed

section \<open>One call of the callback, with the buffered items\<close>

text \<open>
  C1. A stage made by \<^verbatim>\<open>toflush\<close> holds the transformation function that the
  argument gives. When the stage is written the items \<open>objs\<close> (any number, none
  included) and accepts every one of them, the run ends in \<^verbatim>\<open>flush\<close> with exactly
  these items in the buffer, in the order of arrival. \<^verbatim>\<open>flush\<close> calls that function
  in its first turn, with that list as the only argument, and what the stage does after
  the call is the reaction to what the function does with that list: the handler of
  \<^verbatim>\<open>then\<close> for the value it produces, the handler of \<^verbatim>\<open>catch\<close> for the value it
  fails with, nothing while its promise is unsettled. The run holds no other call of the
  function.
\<close>

theorem callback_called_once:
  assumes "toflush a = Inr st" and "\<forall>obj \<in> set objs. accepted st obj"
  shows "resolved_callback a = Some (callback st)
    \<and> run st objs = Flushed (st\<lparr>items := objs\<rparr>) (flush (st\<lparr>items := objs\<rparr>))
    \<and> flush (st\<lparr>items := objs\<rparr>) =
        [Call objs] #
        (case settle (fbody (callback st) objs) of
           Fulfilled result \<Rightarrow> [then_handler result]
         | Rejected err \<Rightarrow>
             fst (catch_handler st err) #
             map (\<lambda>e. [Done (Some e)]) (snd (catch_handler st err))
         | Unsettled \<Rightarrow> [])
    \<and> hd (flush (st\<lparr>items := objs\<rparr>)) = [Call objs]
    \<and> call_args (concat (flush (st\<lparr>items := objs\<rparr>))) = [objs]"
proof -
  from assms(1) have "items st = []" by (rule toflush_items)
  with run_accepted [OF assms(2)]
  have "run st objs = Flushed (st\<lparr>items := objs\<rparr>) (flush (st\<lparr>items := objs\<rparr>))"
    by simp
  moreover from assms(1) have "resolved_callback a = Some (callback st)"
    by (simp add: toflush_Inr)
  moreover have "flush (st\<lparr>items := objs\<rparr>) =
        [Call objs] #
        (case settle (fbody (callback st) objs) of
           Fulfilled result \<Rightarrow> [then_handler result]
         | Rejected err \<Rightarrow>
             fst (catch_handler st err) #
             map (\<lambda>e. [Done (Some e)]) (snd (catch_handler st err))
         | Unsettled \<Rightarrow> [])"
    by (rule flush_items)
  moreover have "hd (flush (st\<lparr>items := objs\<rparr>)) = [Call objs]"
    by (simp add: hd_flush)
  moreover have "call_args (concat (flush (st\<lparr>items := objs\<rparr>))) = [objs]"
    by (simp add: call_args_flush)
  ultimately show ?thesis by blast
qed

text \<open>
  The test \<^verbatim>\<open>duplicate items, sync\<close>: the callback is the function given, it is
  called with the two items written, and what is pushed is what it returns for them.
\<close>

theorem callback_called_once_witness:
  "toflush (AFunction duplicate) = Inr (new_stage stream_false duplicate)
   \<and> accepted (new_stage stream_false duplicate) (value_item 1)
   \<and> accepted (new_stage stream_false duplicate) (value_item 2)
   \<and> resolved_callback (AFunction duplicate)
       = Some (callback (new_stage stream_false duplicate))
   \<and> run (new_stage stream_false duplicate) [value_item 1, value_item 2]
       = Flushed
           (new_stage stream_false duplicate\<lparr>items := [value_item 1, value_item 2]\<rparr>)
           [[Call [value_item 1, value_item 2]],
            [Push (value_item 1), Push (value_item 1), Push (value_item 2),
             Push (value_item 2), Done None]]
   \<and> call_args (concat (flush
         (new_stage stream_false duplicate\<lparr>items := [value_item 1, value_item 2]\<rparr>)))
       = [[value_item 1, value_item 2]]"
  using callback_called_once [of "AFunction duplicate" "new_stage stream_false duplicate"
      "[value_item 1, value_item 2]"]
  by (simp add: toflush_def accepted_def transform_def new_stage_def stream_false_def
      stream_enabled_def value_item_def flush_def duplicate_def then_handler_def)

section \<open>What a fulfilled promise pushes\<close>

text \<open>
  C2, as amended. When the promise of \<^verbatim>\<open>flush\<close> is fulfilled, the stage pushes values
  and then calls \<^verbatim>\<open>done(null)\<close>, in the turn after the call of the callback. When the
  result is an array of \<open>K\<close> values, the stage calls \<^verbatim>\<open>stream.push\<close> \<open>K\<close> times, once
  for each element, in the array's order, and never with the array itself. The items
  emitted downstream are the elements before the first \<^verbatim>\<open>null\<close>: all \<open>K\<close> elements, in
  order, when none of them is \<^verbatim>\<open>null\<close>, and none for the empty array.
\<close>

theorem array_result_pushed_elementwise:
  assumes "settle (fbody (callback st) (items st)) = Fulfilled result"
  shows "(\<exists>ps. flush st = [[Call (items st)], map Push ps @ [Done None]])
    \<and> (result = JArray rs \<longrightarrow>
          flush st = [[Call (items st)], map Push rs @ [Done None]]
        \<and> pushed (concat (flush st)) = rs
        \<and> length (pushed (concat (flush st))) = length rs
        \<and> pushed (concat (flush st)) \<noteq> [JArray rs]
        \<and> emitted (concat (flush st)) = takeWhile (\<lambda>v. v \<noteq> JNull) rs
        \<and> emitted (concat (flush st)) \<noteq> [JArray rs]
        \<and> (JNull \<notin> set rs \<longrightarrow>
              emitted (concat (flush st)) = rs
            \<and> length (emitted (concat (flush st))) = length rs))"
proof -
  have "\<exists>ps. then_handler result = map Push ps @ [Done None]"
  proof (cases "isArray result")
    case True
    then show ?thesis by (cases result) (auto simp add: then_handler_def)
  next
    case False
    then have "then_handler result = map Push [result] @ [Done None]"
      by (cases result) (simp_all add: then_handler_def)
    then show ?thesis by blast
  qed
  with assms have completes: "\<exists>ps. flush st = [[Call (items st)], map Push ps @ [Done None]]"
    by (simp add: flush_Fulfilled)
  have array: "flush st = [[Call (items st)], map Push rs @ [Done None]]
        \<and> pushed (concat (flush st)) = rs
        \<and> length (pushed (concat (flush st))) = length rs
        \<and> pushed (concat (flush st)) \<noteq> [JArray rs]" if "result = JArray rs"
    using assms that by (simp add: flush_Fulfilled then_handler_def not_self_nested)
  have prefix: "takeWhile (\<lambda>v. v \<noteq> JNull) rs \<noteq> [JArray rs]"
  proof
    assume eq: "takeWhile (\<lambda>v. v \<noteq> JNull) rs = [JArray rs]"
    have "JArray rs \<in> set (takeWhile (\<lambda>v. v \<noteq> JNull) rs)" by (simp add: eq)
    then have "JArray rs \<in> set rs" by (rule set_takeWhileD [THEN conjunct1])
    then have "size (JArray rs) \<le> size_list size rs" by (simp add: size_list_estimation')
    then show False by simp
  qed
  have all: "takeWhile (\<lambda>v. v \<noteq> JNull) rs = rs" if "JNull \<notin> set rs"
    using that by (induction rs) auto
  have "emitted (concat (flush st)) = takeWhile (\<lambda>v. v \<noteq> JNull) rs
        \<and> emitted (concat (flush st)) \<noteq> [JArray rs]
        \<and> (JNull \<notin> set rs \<longrightarrow>
              emitted (concat (flush st)) = rs
            \<and> length (emitted (concat (flush st))) = length rs)" if "result = JArray rs"
  proof -
    from array [OF that]
    have e: "emitted (concat (flush st)) = takeWhile (\<lambda>v. v \<noteq> JNull) rs"
      by (simp add: emitted_def)
    have "emitted (concat (flush st)) = rs \<and> length (emitted (concat (flush st))) = length rs"
      if "JNull \<notin> set rs"
      unfolding e all [OF that] by simp
    with e prefix show ?thesis by simp
  qed
  with completes array show ?thesis by blast
qed

text \<open>The test \<^verbatim>\<open>filter items, sync\<close>: of five items, the two with an even value.\<close>

theorem array_result_pushed_elementwise_witness:
  "settle (fbody
       (callback (new_stage stream_false filter_even\<lparr>items := map value_item [1, 2, 3, 4, 5]\<rparr>))
       (map value_item [1, 2, 3, 4, 5]))
     = Fulfilled (JArray [value_item 2, value_item 4])
   \<and> JNull \<notin> set [value_item 2, value_item 4]
   \<and> flush (new_stage stream_false filter_even\<lparr>items := map value_item [1, 2, 3, 4, 5]\<rparr>)
       = [[Call (map value_item [1, 2, 3, 4, 5])],
          [Push (value_item 2), Push (value_item 4), Done None]]
   \<and> pushed (concat
         (flush (new_stage stream_false filter_even\<lparr>items := map value_item [1, 2, 3, 4, 5]\<rparr>)))
       = [value_item 2, value_item 4]
   \<and> emitted (concat
         (flush (new_stage stream_false filter_even\<lparr>items := map value_item [1, 2, 3, 4, 5]\<rparr>)))
       = [value_item 2, value_item 4]"
  using array_result_pushed_elementwise
    [of "new_stage stream_false filter_even\<lparr>items := map value_item [1, 2, 3, 4, 5]\<rparr>"
        "JArray [value_item 2, value_item 4]" "[value_item 2, value_item 4]"]
  by (simp add: new_stage_def filter_even_def even_value_def value_item_def emitted_def)

text \<open>
  C2 as stated fails for a result with a \<^verbatim>\<open>null\<close> element. A callback that returns
  \<^verbatim>\<open>[1, null, 2]\<close>: the stage pushes the three elements, the second push ends the
  stream, and one item is emitted downstream, not three.
\<close>

theorem null_element_ends_stream:
  "settle (fbody
       (callback (new_stage stream_false (Fn [] (\<lambda>items. Returns (JArray [JNum 1, JNull, JNum 2])))))
       (items (new_stage stream_false (Fn [] (\<lambda>items. Returns (JArray [JNum 1, JNull, JNum 2]))))))
     = Fulfilled (JArray [JNum 1, JNull, JNum 2])
   \<and> pushed (concat (flush
         (new_stage stream_false (Fn [] (\<lambda>items. Returns (JArray [JNum 1, JNull, JNum 2]))))))
     = [JNum 1, JNull, JNum 2]
   \<and> emitted (concat (flush
         (new_stage stream_false (Fn [] (\<lambda>items. Returns (JArray [JNum 1, JNull, JNum 2]))))))
     = [JNum 1]
   \<and> length (emitted (concat (flush
         (new_stage stream_false (Fn [] (\<lambda>items. Returns (JArray [JNum 1, JNull, JNum 2])))))))
     \<noteq> length [JNum 1, JNull, JNum 2]"
  by (simp add: new_stage_def flush_def then_handler_def emitted_def)

section \<open>Failures of the callback\<close>

text \<open>
  A failure with a text: the handler of \<^verbatim>\<open>catch\<close> hands one task to \<^verbatim>\<open>setImmediate\<close>,
  and the task calls \<^verbatim>\<open>done\<close> with an error whose message is the name of the stage,
  a colon and a blank, and the text. A throw and a rejection with the same value give
  the same trace.
\<close>

lemma flush_failure:
  assumes "settle (fbody (callback st) (items st)) = Rejected err"
    and "failure_text err = Some text"
  shows "flush st = [[Call (items st)], [SetImmediate],
      [Done (Some (set_message (copy err) (name st @ '': '' @ text)))]]"
  using assms by (simp add: flush_Rejected catch_handler_def)

lemma throw_and_rejection_alike:
  assumes "fbody (callback st) (items st) = Throws err"
    and "fbody (callback st') (items st') = Rejects err"
    and "name st = name st'" and "items st = items st'"
  shows "flush st = flush st'"
proof -
  from assms(1) have "settle (fbody (callback st) (items st)) = Rejected err" by simp
  then have left: "flush st = [Call (items st)] # fst (catch_handler st err) #
      map (\<lambda>e. [Done (Some e)]) (snd (catch_handler st err))"
    by (rule flush_Rejected)
  from assms(2) have "settle (fbody (callback st') (items st')) = Rejected err" by simp
  then have right: "flush st' = [Call (items st')] # fst (catch_handler st' err) #
      map (\<lambda>e. [Done (Some e)]) (snd (catch_handler st' err))"
    by (rule flush_Rejected)
  from assms(3) have "catch_handler st err = catch_handler st' err"
    by (simp add: catch_handler_def cong: option.case_cong)
  with left right assms(4) show ?thesis by simp
qed

text \<open>
  The text of a failure value: its \<^verbatim>\<open>message\<close> when that is a true value, the value
  itself otherwise.
\<close>

lemma failure_text_cases:
  "failure_text (JError n (m # ms) ps) = Some (m # ms)"
  "failure_text (JStr s) = Some s"
  "failure_text (JError ''Error'' [] []) = Some ''Error''"
  "failure_text JUndefined = None"
  "failure_text JNull = None"
  by (simp_all add: failure_text_def)

text \<open>
  C3, at a failure value for which the claim does not hold. A callback that returns
  \<^verbatim>\<open>Promise.reject(undefined)\<close>, or that throws \<^verbatim>\<open>undefined\<close>: the handler of
  \<^verbatim>\<open>catch\<close> throws a TypeError when it reads \<^verbatim>\<open>err.message\<close>; nothing is handed to
  \<^verbatim>\<open>setImmediate\<close>, \<^verbatim>\<open>done\<close> is never called, and no error is delivered.
\<close>

theorem rejection_with_undefined_lost:
  "run (new_stage stream_false (Fn [] (\<lambda>items. Rejects JUndefined))) []
     = Flushed (new_stage stream_false (Fn [] (\<lambda>items. Rejects JUndefined)))
         [[Call []], [ThrowTypeError]]
   \<and> run (new_stage stream_false (Fn [] (\<lambda>items. Throws JUndefined))) []
     = Flushed (new_stage stream_false (Fn [] (\<lambda>items. Throws JUndefined)))
         [[Call []], [ThrowTypeError]]
   \<and> delivered (concat [[Call []], [ThrowTypeError]]) = []"
  by (simp add: flush_def new_stage_def catch_handler_def failure_text_def)

section \<open>The gate for content streams\<close>

text \<open>
  C4, as amended. For an item that is neither \<^verbatim>\<open>null\<close> nor \<^verbatim>\<open>undefined\<close>: when the
  item has the \<^verbatim>\<open>isStream\<close> predicate, the predicate answers with a true value and the
  \<^verbatim>\<open>stream\<close> option is not set, \<^verbatim>\<open>transform\<close> calls \<^verbatim>\<open>next\<close> with an Error whose
  message is the name of the stage followed by \<^verbatim>\<open>: content streams are not enabled\<close>,
  the buffer is unchanged, and the run ends there whatever is written after the item;
  in every other case, the missing predicate included, the item is appended to the
  buffer, \<^verbatim>\<open>next(null)\<close> is called and the run goes on with the items that follow.
\<close>

theorem transform_gate:
  assumes "\<not> nullish obj"
  shows "(stream_backed obj \<and> \<not> stream_enabled st \<longrightarrow>
            transform st obj =
              NextCalled st (Some (new_Error (name st @ '': content streams are not enabled'')))
          \<and> run st (obj # objs) =
              Errored st (new_Error (name st @ '': content streams are not enabled'')))
       \<and> (\<not> (stream_backed obj \<and> \<not> stream_enabled st) \<longrightarrow>
            transform st obj = NextCalled (st\<lparr>items := items st @ [obj]\<rparr>) None
          \<and> run st (obj # objs) = run (st\<lparr>items := items st @ [obj]\<rparr>) objs)"
  using assms by (auto simp add: transform_def stream_backed_def)

text \<open>The test \<^verbatim>\<open>content stream without option\<close>, with one more item after the file.\<close>

theorem transform_gate_witness:
  "\<not> nullish (MockVinyl True ''/tmp/toflush/5678.txt'' (JObject None []))
   \<and> stream_backed (MockVinyl True ''/tmp/toflush/5678.txt'' (JObject None []))
   \<and> \<not> stream_enabled (new_stage stream_false noop)
   \<and> run (new_stage stream_false noop)
        [MockVinyl True ''/tmp/toflush/5678.txt'' (JObject None []), value_item 1]
       = Errored (new_stage stream_false noop)
           (JError ''Error'' ''toflush: content streams are not enabled'' [])"
  using transform_gate [of "MockVinyl True ''/tmp/toflush/5678.txt'' (JObject None [])"
      "new_stage stream_false noop" "[value_item 1]"]
  by (simp add: MockVinyl_def stream_backed_def stream_enabled_def new_stage_def
      stream_false_def resolve_name_def noop_def new_Error_def)

text \<open>
  C4 as stated fails at the item \<^verbatim>\<open>undefined\<close>: it has no predicate, so the claim has
  it appended to the buffer; \<^verbatim>\<open>transform\<close> throws instead, and the item is not accepted.
\<close>

theorem undefined_item_not_buffered:
  "\<not> stream_backed JUndefined
   \<and> transform (new_stage stream_false noop) JUndefined = TypeErrorThrown
   \<and> \<not> accepted (new_stage stream_false noop) JUndefined
   \<and> run (new_stage stream_false noop) [JUndefined] = WriteThrew (new_stage stream_false noop)"
  by (simp add: stream_backed_def transform_def accepted_def)

section \<open>The name in the messages\<close>

text \<open>
  C5. A stage made by \<^verbatim>\<open>toflush\<close> holds the function that the argument gives, and its
  name is fixed when it is made: the first that is not empty of the explicit \<^verbatim>\<open>name\<close>
  of the configuration, the name of that function, and \<^verbatim>\<open>toflush\<close>. Every error of a
  run of the stage starts with this name: the error of the gate for content streams, and
  every error with which \<^verbatim>\<open>done\<close> is called.
\<close>

theorem diagnostic_name:
  assumes "toflush a = Inr st"
  shows "resolved_callback a = Some (callback st)
    \<and> name st =
        hd (filter (\<lambda>s. s \<noteq> []) (explicit_name a @ [fname (callback st), ''toflush'']))
    \<and> (run st objs = Errored st' e \<longrightarrow>
         message e = JStr (name st @ '': content streams are not enabled''))
    \<and> (run st objs = Flushed st' turns \<longrightarrow>
         list_all (\<lambda>e. \<exists>text. message e = JStr (name st @ '': '' @ text))
           (delivered (concat turns)))"
proof -
  have "run st objs = Errored st' e \<longrightarrow>
         message e = JStr (name st @ '': content streams are not enabled'')"
    using run_name [of st objs st' turns e] by (auto simp add: new_Error_def)
  moreover have "run st objs = Flushed st' turns \<longrightarrow>
         list_all (\<lambda>e. \<exists>text. message e = JStr (name st @ '': '' @ text))
           (delivered (concat turns))"
    using run_name [of st objs st' turns e] delivered_flush [of st'] by auto
  ultimately show ?thesis using toflush_Inr [OF assms] by simp
qed

text \<open>The test \<^verbatim>\<open>name option\<close>: the name of the options wins over the name of the function.\<close>

theorem diagnostic_name_witness:
  "toflush (AOptions
       \<lparr>o_callback = Some dopedname, o_name = Some ''namefromoptions'', o_stream = None\<rparr>)
     = Inr (new_stage
         \<lparr>o_callback = Some dopedname, o_name = Some ''namefromoptions'', o_stream = None\<rparr>
         dopedname)
   \<and> name (new_stage
         \<lparr>o_callback = Some dopedname, o_name = Some ''namefromoptions'', o_stream = None\<rparr>
         dopedname)
     = ''namefromoptions''
   \<and> run (new_stage
         \<lparr>o_callback = Some dopedname, o_name = Some ''namefromoptions'', o_stream = None\<rparr>
         dopedname) []
     = Flushed (new_stage
         \<lparr>o_callback = Some dopedname, o_name = Some ''namefromoptions'', o_stream = None\<rparr>
         dopedname)
         [[Call []], [SetImmediate],
          [Done (Some (JError ''Error'' ''namefromoptions: is used'' []))]]"
  using diagnostic_name [of
      "AOptions \<lparr>o_callback = Some dopedname, o_name = Some ''namefromoptions'', o_stream = None\<rparr>"
      "new_stage \<lparr>o_callback = Some dopedname, o_name = Some ''namefromoptions'', o_stream = None\<rparr>
         dopedname"
      "[]"]
  by (simp add: toflush_def new_stage_def resolve_name_def dopedname_def flush_def
      catch_handler_def failure_text_def copy_def new_Error_def)

section \<open>A result that is not an array\<close>

text \<open>
  C6, as amended. When the promise of \<^verbatim>\<open>flush\<close> is fulfilled with a value that
  \<^verbatim>\<open>Array.isArray\<close> rejects (\<^verbatim>\<open>undefined\<close>, a string, an object with a length and
  indices, any value that is no array), the stage calls \<^verbatim>\<open>stream.push\<close> once, with that
  value whole, and then calls \<^verbatim>\<open>done(null)\<close>. A value other than \<^verbatim>\<open>null\<close> is thereby
  emitted downstream as the one item; for \<^verbatim>\<open>null\<close> the push ends the stream and no item
  is emitted.
\<close>

theorem single_result_pushed_whole:
  assumes "settle (fbody (callback st) (items st)) = Fulfilled result" and "\<not> isArray result"
  shows "flush st = [[Call (items st)], [Push result, Done None]]
    \<and> pushed (concat (flush st)) = [result]
    \<and> emitted (concat (flush st)) = (if result = JNull then [] else [result])"
  using assms by (cases result) (simp_all add: flush_Fulfilled then_handler_def emitted_def)

text \<open>A callback that returns nothing: \<^verbatim>\<open>undefined\<close> is pushed, and emitted.\<close>

theorem single_result_pushed_whole_witness:
  "settle (fbody (callback (new_stage stream_false noop)) (items (new_stage stream_false noop)))
     = Fulfilled JUndefined
   \<and> \<not> isArray JUndefined
   \<and> flush (new_stage stream_false noop) = [[Call []], [Push JUndefined, Done None]]
   \<and> pushed (concat (flush (new_stage stream_false noop))) = [JUndefined]
   \<and> emitted (concat (flush (new_stage stream_false noop))) = [JUndefined]"
  using single_result_pushed_whole [of "new_stage stream_false noop" JUndefined]
  by (simp add: new_stage_def noop_def emitted_def)

text \<open>
  C6 as stated fails for the result \<^verbatim>\<open>null\<close>, which is no array: the stage pushes it,
  the push ends the stream, and no item is emitted downstream.
\<close>

theorem null_result_not_emitted:
  "settle (fbody (callback (new_stage stream_false (Fn [] (\<lambda>items. Returns JNull))))
       (items (new_stage stream_false (Fn [] (\<lambda>items. Returns JNull)))))
     = Fulfilled JNull
   \<and> \<not> isArray JNull
   \<and> pushed (concat (flush (new_stage stream_false (Fn [] (\<lambda>items. Returns JNull)))))
     = [JNull]
   \<and> emitted (concat (flush (new_stage stream_false (Fn [] (\<lambda>items. Returns JNull)))))
     = []
   \<and> emitted (concat (flush (new_stage stream_false (Fn [] (\<lambda>items. Returns JNull)))))
     \<noteq> [JNull]"
  by (simp add: new_stage_def flush_def then_handler_def emitted_def)

section \<open>The error that is delivered\<close>



section \<open>Failure at construction\<close>

text \<open>
  C8. \<^verbatim>\<open>toflush\<close> throws exactly when its argument gives no transformation function. It
  then throws the TypeError \<^verbatim>\<open>callback must be a function\<close> to its caller: the call
  returns no stream, so there is no stage that could emit the error. With a bare function
  as the argument, \<^verbatim>\<open>toflush\<close> returns a stage.
\<close>

theorem toflush_throws_iff:
  "isl (toflush a) = (resolved_callback a = None)
   \<and> (toflush a = Inl (JError ''TypeError'' ''callback must be a function'' []))
       = (resolved_callback a = None)
   \<and> toflush (AFunction f) = Inr (new_stage stream_false f)"
  by (cases a) (auto simp add: toflush_def split: option.splits)

section \<open>The turn in which an error is delivered\<close>

text \<open>
  C9. No error is delivered in the first two turns of \<^verbatim>\<open>flush\<close>: the call itself and
  the promise reaction. When the promise is rejected, the second turn is the handler of
  \<^verbatim>\<open>catch\<close>, which does one thing only: it hands a task to \<^verbatim>\<open>setImmediate\<close>, or a
  TypeError escapes from it. For a failure with a text, the call of \<^verbatim>\<open>done\<close> with the
  error is the third turn, the task that the handler handed over.
\<close>

theorem delivery_deferred:
  "delivered (concat (take 2 (flush st))) = []
   \<and> (settle (fbody (callback st) (items st)) = Rejected err \<longrightarrow>
        flush st ! 1 = fst (catch_handler st err)
        \<and> (flush st ! 1 = [SetImmediate] \<or> flush st ! 1 = [ThrowTypeError])
        \<and> (failure_text err = Some text \<longrightarrow>
              flush st = [[Call (items st)], [SetImmediate],
                [Done (Some (set_message (copy err) (name st @ '': '' @ text)))]]))"
proof (cases "settle (fbody (callback st) (items st))")
  case (Fulfilled result)
  then show ?thesis by (simp add: flush_Fulfilled)
next
  case (Rejected e)
  then show ?thesis
    by (cases "failure_text e") (auto simp add: flush_Rejected catch_handler_def)
next
  case Unsettled
  then show ?thesis by (simp add: flush_Unsettled)
qed

text \<open>The test \<^verbatim>\<open>thrown error\<close>: the error is delivered in the third turn.\<close>

theorem delivery_deferred_witness:
  "settle (fbody (callback (new_stage stream_false thrower))
       (items (new_stage stream_false thrower)))
     = Rejected (new_Error ''test error'')
   \<and> failure_text (new_Error ''test error'') = Some ''test error''
   \<and> flush (new_stage stream_false thrower)
     = [[Call []], [SetImmediate], [Done (Some (JError ''Error'' ''toflush: test error'' []))]]"
  using delivery_deferred
    [of "new_stage stream_false thrower" "new_Error ''test error''" "''test error''"]
  by (simp add: new_stage_def thrower_def failure_text_def new_Error_def copy_def
      resolve_name_def stream_false_def)

section \<open>Null and undefined items\<close>

text \<open>
  C10. The acceptance step is not total: for an item that is \<^verbatim>\<open>null\<close> or
  \<^verbatim>\<open>undefined\<close>, reading \<^verbatim>\<open>obj.isStream\<close> throws a TypeError, whatever the stage; the
  function neither reports the error of the gate nor buffers the item, and it does not
  call \<^verbatim>\<open>next\<close>.
\<close>

theorem transform_nullish_throws:
  "transform st JNull = TypeErrorThrown \<and> transform st JUndefined = TypeErrorThrown"
  by (simp add: transform_def)

end
